theory Spec2Isabelle
  imports Complex_Main
begin

section \<open>Values\<close>

text \<open>
  The distances of \<^verbatim>\<open>proximity_analysis.py\<close> are Python floats. They are read here as
  real numbers, with the one non-number a run can meet written out: \<open>NaN\<close>, which pandas
  returns as the minimum of an empty series. A comparison with \<open>NaN\<close> is false.
\<close>

datatype pyfloat = Fin real | NaN

fun py_le :: "pyfloat \<Rightarrow> real \<Rightarrow> bool" where
  "py_le (Fin x) t = (x \<le> t)"
| "py_le NaN t = False"

text \<open>The exceptions the modelled statements can raise.\<close>

datatype py_error = KeyError | TypeError | ValueError

text \<open>A cell of a data frame: text, or a number.\<close>

datatype cell = Str string | Num pyfloat

section \<open>Risk categorisation\<close>

text \<open>
  \<^verbatim>\<open>HIGH_RISK_THRESHOLD = 100\<close>, \<^verbatim>\<open>MEDIUM_RISK_THRESHOLD = 500\<close> and the nested function
  \<^verbatim>\<open>categorize_risk\<close> (lines 73 to 83).
\<close>

definition HIGH_RISK_THRESHOLD :: real where
  "HIGH_RISK_THRESHOLD = 100"

definition MEDIUM_RISK_THRESHOLD :: real where
  "MEDIUM_RISK_THRESHOLD = 500"

definition categorize_risk :: "pyfloat \<Rightarrow> string" where
  "categorize_risk distance =
     (if py_le distance HIGH_RISK_THRESHOLD then ''High Risk (<100m)''
      else if py_le distance MEDIUM_RISK_THRESHOLD then ''Medium Risk (101-500m)''
      else ''Low Risk (>500m)'')"

section \<open>Frames\<close>

text \<open>
  A pandas (Geo)DataFrame: its named columns in their order, and the geometry column.
  Every column has one cell for each row; \<open>wf_gdf\<close> says so.
\<close>

record 'p gdf =
  cols :: "(string \<times> cell list) list"
  geometry :: "'p list"

definition wf_gdf :: "'p gdf \<Rightarrow> bool" where
  "wf_gdf f = list_all (\<lambda>c. length (snd c) = length (geometry f)) (cols f)"

text \<open>
  \<^verbatim>\<open>df[k] = v\<close>: an existing column is replaced where it stands, a new one goes last.
  pandas raises ValueError when \<open>v\<close> has not one value for each row.
\<close>

fun assign :: "string \<Rightarrow> cell list \<Rightarrow> (string \<times> cell list) list \<Rightarrow> (string \<times> cell list) list" where
  "assign k v [] = [(k, v)]"
| "assign k v (c # cs) = (if fst c = k then (k, v) # cs else c # assign k v cs)"

definition set_column :: "string \<Rightarrow> cell list \<Rightarrow> 'p gdf \<Rightarrow> py_error + 'p gdf" where
  "set_column k v f =
     (if length v = length (geometry f) then Inr (f\<lparr>cols := assign k v (cols f)\<rparr>)
      else Inl ValueError)"

text \<open>\<^verbatim>\<open>df[k]\<close>: KeyError when there is no such column.\<close>

definition get_column :: "string \<Rightarrow> 'p gdf \<Rightarrow> py_error + cell list" where
  "get_column k f = (case map_of (cols f) k of None \<Rightarrow> Inl KeyError | Some v \<Rightarrow> Inr v)"

text \<open>\<^verbatim>\<open>df[[k1, k2, ...]]\<close>: the named columns in the order asked for, or KeyError.\<close>

fun select_columns :: "string list \<Rightarrow> (string \<times> cell list) list \<Rightarrow> py_error + (string \<times> cell list) list" where
  "select_columns [] cs = Inr []"
| "select_columns (k # ks) cs =
     (case map_of cs k of
        None \<Rightarrow> Inl KeyError
      | Some v \<Rightarrow>
          (case select_columns ks cs of
             Inl e \<Rightarrow> Inl e
           | Inr r \<Rightarrow> Inr ((k, v) # r)))"

text \<open>\<^verbatim>\<open>to_crs\<close> reprojects the geometry column and leaves every other column alone.\<close>

definition to_crs :: "('p \<Rightarrow> 'q) \<Rightarrow> 'p gdf \<Rightarrow> 'q gdf" where
  "to_crs reproject f = \<lparr>cols = cols f, geometry = map reproject (geometry f)\<rparr>"

text \<open>\<^verbatim>\<open>Series.min()\<close>: the least value, and \<open>NaN\<close> for a series with no value.\<close>

fun series_min :: "real list \<Rightarrow> pyfloat" where
  "series_min [] = NaN"
| "series_min (x # xs) = Fin (fold min xs x)"

section \<open>Distance calculation and risk categorisation\<close>

text \<open>
  \<^verbatim>\<open>calculate_distance_and_categorize_risk\<close> (lines 53 to 88). The distance between a
  water geometry and a point is shapely's; it is the parameter \<open>distance\<close>. The water layer
  is the list of its geometries.

  Line 64, \<^verbatim>\<open>gdf_water_proj.distance(facility.geometry).min()\<close>:
\<close>

definition min_dist :: "('g \<Rightarrow> 'p \<Rightarrow> real) \<Rightarrow> 'g list \<Rightarrow> 'p \<Rightarrow> pyfloat" where
  "min_dist distance gdf_water_proj p = series_min (map (\<lambda>g. distance g p) gdf_water_proj)"

text \<open>The loop of lines 62 to 65 over the rows, appending to \<^verbatim>\<open>distances_m\<close>.\<close>

fun distance_loop :: "('g \<Rightarrow> 'p \<Rightarrow> real) \<Rightarrow> 'g list \<Rightarrow> 'p list \<Rightarrow> pyfloat list \<Rightarrow> pyfloat list" where
  "distance_loop distance gdf_water_proj [] distances_m = distances_m"
| "distance_loop distance gdf_water_proj (p # ps) distances_m =
     distance_loop distance gdf_water_proj ps (distances_m @ [min_dist distance gdf_water_proj p])"

text \<open>
  Line 86, \<^verbatim>\<open>.apply(categorize_risk)\<close> over a column: on a text cell the comparison
  with a number raises TypeError.
\<close>

fun apply_categorize_risk :: "cell list \<Rightarrow> py_error + cell list" where
  "apply_categorize_risk [] = Inr []"
| "apply_categorize_risk (Num x # cs) =
     (case apply_categorize_risk cs of
        Inl e \<Rightarrow> Inl e
      | Inr r \<Rightarrow> Inr (Str (categorize_risk x) # r))"
| "apply_categorize_risk (Str s # cs) = Inl TypeError"

definition calculate_distance_and_categorize_risk ::
    "('g \<Rightarrow> 'p \<Rightarrow> real) \<Rightarrow> 'p gdf \<Rightarrow> 'g list \<Rightarrow> py_error + 'p gdf" where
  "calculate_distance_and_categorize_risk distance gdf_facilities_proj gdf_water_proj =
     (let distances_m = distance_loop distance gdf_water_proj (geometry gdf_facilities_proj) [] in
      case set_column ''Distance_to_Water_m'' (map Num distances_m) gdf_facilities_proj of
        Inl e \<Rightarrow> Inl e
      | Inr gdf1 \<Rightarrow>
          (case get_column ''Distance_to_Water_m'' gdf1 of
             Inl e \<Rightarrow> Inl e
           | Inr distance_column \<Rightarrow>
               (case apply_categorize_risk distance_column of
                  Inl e \<Rightarrow> Inl e
                | Inr risk_column \<Rightarrow> set_column ''Risk_Category'' risk_column gdf1)))"

section \<open>The report\<close>

text \<open>
  The CSV part of \<^verbatim>\<open>generate_reports\<close> (lines 97 to 108). \<^verbatim>\<open>to_csv\<close> is called with
  \<^verbatim>\<open>index=False\<close> and no float format: it writes the column names, then one line for
  each row with the cells as they are.
\<close>

record csv =
  header :: "string list"
  rows :: "cell list list"

definition to_csv :: "nat \<Rightarrow> (string \<times> cell list) list \<Rightarrow> csv" where
  "to_csv n df = \<lparr>header = map fst df, rows = map (\<lambda>i. map (\<lambda>c. snd c ! i) df) [0..<n]\<rparr>"

definition generate_reports :: "('p \<Rightarrow> 'q) \<Rightarrow> 'p gdf \<Rightarrow> py_error + csv" where
  "generate_reports reproject gdf_classified =
     (let gdf_report = to_crs reproject gdf_classified in
      case select_columns
             [''FACILITY_NAME'', ''COUNTY'', ''LATITUDE'', ''LONGITUDE'',
              ''Distance_to_Water_m'', ''Risk_Category'']
             (cols gdf_report) of
        Inl e \<Rightarrow> Inl e
      | Inr df_report \<Rightarrow> Inr (to_csv (length (geometry gdf_report)) df_report))"

text \<open>Steps 3 and 4 of the main block (lines 155 and 158).\<close>

definition main_steps ::
    "('g \<Rightarrow> 'p \<Rightarrow> real) \<Rightarrow> ('p \<Rightarrow> 'q) \<Rightarrow> 'p gdf \<Rightarrow> 'g list \<Rightarrow> py_error + csv" where
  "main_steps distance reproject gdf_facilities_proj gdf_water_proj =
     (case calculate_distance_and_categorize_risk distance gdf_facilities_proj gdf_water_proj of
        Inl e \<Rightarrow> Inl e
      | Inr gdf_classified \<Rightarrow> generate_reports reproject gdf_classified)"

section \<open>Specification notions\<close>

text \<open>
  The brute-force minimum of the specification: the least of the distances from the
  point to the features of the collection. It is written with \<open>Min\<close> over the set of
  these distances, to be compared with what the code computes.
\<close>

definition brute_force_minimum :: "('g \<Rightarrow> 'p \<Rightarrow> real) \<Rightarrow> 'g list \<Rightarrow> 'p \<Rightarrow> real" where
  "brute_force_minimum distance water p = Min ((\<lambda>g. distance g p) ` set water)"

text \<open>A number that two decimals can show: a whole number of hundredths.\<close>

definition two_decimals :: "real \<Rightarrow> bool" where
  "two_decimals x = (real_of_int \<lfloor>x * 100\<rfloor> = x * 100)"

text \<open>A cell that holds a number, not \<open>NaN\<close>, that is at least 0.\<close>

fun nonnegative_cell :: "cell \<Rightarrow> bool" where
  "nonnegative_cell (Num (Fin d)) = (0 \<le> d)"
| "nonnegative_cell (Num NaN) = False"
| "nonnegative_cell (Str s) = False"

section \<open>Planar distance\<close>

text \<open>
  Modelled from the spec: the distance between a water feature and a facility's point,
  which the source takes from shapely (\<^verbatim>\<open>gdf_water_proj.distance(facility.geometry)\<close>)
  and which is not part of the source. The spec calls it the exact planar
  point-to-geometry distance, in meters, of a point to a line or polygon geometry given
  by the sequence of its planar vertices. A feature has at least one vertex. The distance
  to a line is the least distance to its segments; the distance to a polygon is 0 for a
  point of the polygon and the distance to its closed outline otherwise. Whether a point
  lies in a polygon is the geometry library's test and is the parameter \<open>inside\<close>.
\<close>

text \<open>Modelled from the spec: a planar position, in meters.\<close>

type_synonym point = "real \<times> real"

text \<open>
  Modelled from the spec: a water feature, a line or a polygon, as its first vertex and the
  vertices after it.
\<close>

datatype water_feature = LineString point "point list" | Polygon point "point list"

text \<open>Modelled from the spec: the planar distance between two points.\<close>

definition point_distance :: "point \<Rightarrow> point \<Rightarrow> real" where
  "point_distance a p = sqrt ((fst p - fst a)\<^sup>2 + (snd p - snd a)\<^sup>2)"

text \<open>
  Modelled from the spec: the distance to the segment from \<open>a\<close> to \<open>b\<close>, which is the
  distance to the nearest point of the segment.
\<close>

definition segment_distance :: "point \<Rightarrow> point \<Rightarrow> point \<Rightarrow> real" where
  "segment_distance a b p =
     (let dx = fst b - fst a; dy = snd b - snd a; l2 = dx\<^sup>2 + dy\<^sup>2 in
      if l2 = 0 then point_distance a p
      else
        let t = max 0 (min 1 (((fst p - fst a) * dx + (snd p - snd a) * dy) / l2))
        in point_distance (fst a + t * dx, snd a + t * dy) p)"

text \<open>
  Modelled from the spec: the distance to the line through the vertices \<open>a\<close> and \<open>vs\<close>, the
  least distance to its segments.
\<close>

fun line_distance :: "point \<Rightarrow> point list \<Rightarrow> point \<Rightarrow> real" where
  "line_distance a [] p = point_distance a p"
| "line_distance a (b # vs) p = min (segment_distance a b p) (line_distance b vs p)"

text \<open>Modelled from the spec: the exact planar point-to-geometry distance.\<close>

fun planar_distance :: "(point list \<Rightarrow> point \<Rightarrow> bool) \<Rightarrow> water_feature \<Rightarrow> point \<Rightarrow> real" where
  "planar_distance inside (LineString a vs) p = line_distance a vs p"
| "planar_distance inside (Polygon a vs) p =
     (if inside (a # vs) p then 0 else line_distance a (vs @ [a]) p)"

section \<open>Auxiliary facts\<close>

lemma distance_loop_eq:
  "distance_loop distance water ps acc = acc @ map (min_dist distance water) ps"
  by (induction ps arbitrary: acc) simp_all

lemma map_of_assign: "map_of (assign k v cs) = (map_of cs)(k \<mapsto> v)"
  by (induction cs) (auto simp: fun_eq_iff)

lemma assign_fresh: "k \<notin> fst ` set cs \<Longrightarrow> assign k v cs = cs @ [(k, v)]"
  by (induction cs) auto

lemma filter_assign:
  "\<not> P k \<Longrightarrow> filter (\<lambda>c. P (fst c)) (assign k v cs) = filter (\<lambda>c. P (fst c)) cs"
  by (induction cs) auto

lemma apply_categorize_risk_Num:
  "apply_categorize_risk (map (\<lambda>x. Num (f x)) xs) =
     Inr (map (\<lambda>x. Str (categorize_risk (f x))) xs)"
  by (induction xs) simp_all

text \<open>The call never raises, and this is the frame it returns.\<close>

lemma calculate_eq:
  "calculate_distance_and_categorize_risk distance fac water =
     Inr (fac\<lparr>cols :=
            assign ''Risk_Category''
              (map (\<lambda>p. Str (categorize_risk (min_dist distance water p))) (geometry fac))
              (assign ''Distance_to_Water_m''
                 (map (\<lambda>p. Num (min_dist distance water p)) (geometry fac)) (cols fac))\<rparr>)"
  by (simp add: calculate_distance_and_categorize_risk_def set_column_def get_column_def
      distance_loop_eq map_of_assign apply_categorize_risk_Num comp_def)

lemma distance_column:
  "calculate_distance_and_categorize_risk distance fac water = Inr out \<Longrightarrow>
   get_column ''Distance_to_Water_m'' out =
     Inr (map (\<lambda>p. Num (min_dist distance water p)) (geometry fac))"
  by (auto simp: calculate_eq get_column_def map_of_assign)

lemma risk_column:
  "calculate_distance_and_categorize_risk distance fac water = Inr out \<Longrightarrow>
   get_column ''Risk_Category'' out =
     Inr (map (\<lambda>p. Str (categorize_risk (min_dist distance water p))) (geometry fac))"
  by (auto simp: calculate_eq get_column_def map_of_assign)

lemma series_min_Min: "xs \<noteq> [] \<Longrightarrow> series_min xs = Fin (Min (set xs))"
  by (cases xs) (simp_all add: Min.set_eq_fold [symmetric] del: set_simps)

lemma min_dist_brute_force:
  "water \<noteq> [] \<Longrightarrow> min_dist distance water p = Fin (brute_force_minimum distance water p)"
  by (simp add: min_dist_def brute_force_minimum_def series_min_Min)

lemma series_min_nonneg:
  "xs \<noteq> [] \<Longrightarrow> \<forall>x\<in>set xs. 0 \<le> x \<Longrightarrow> \<exists>d. series_min xs = Fin d \<and> 0 \<le> d"
  by (simp add: series_min_Min)

lemma nonnegative_distance_column:
  assumes "water \<noteq> []"
    and "\<forall>g\<in>set water. \<forall>p\<in>set (geometry fac). 0 \<le> distance g p"
  shows "list_all nonnegative_cell (map (\<lambda>p. Num (min_dist distance water p)) (geometry fac))"
proof -
  have "nonnegative_cell (Num (min_dist distance water p))" if "p \<in> set (geometry fac)" for p
  proof -
    have "\<forall>x\<in>set (map (\<lambda>g. distance g p) water). 0 \<le> x"
      using assms(2) that by simp
    moreover have "map (\<lambda>g. distance g p) water \<noteq> []"
      using assms(1) by simp
    ultimately obtain d where "min_dist distance water p = Fin d" "0 \<le> d"
      unfolding min_dist_def using series_min_nonneg by blast
    then show ?thesis by simp
  qed
  then show ?thesis
    by (simp add: list_all_iff)
qed

lemma point_distance_nonneg: "0 \<le> point_distance a p"
  by (simp add: point_distance_def)

lemma segment_distance_nonneg: "0 \<le> segment_distance a b p"
  by (simp add: segment_distance_def Let_def point_distance_nonneg)

lemma line_distance_nonneg: "0 \<le> line_distance a vs p"
  by (induction vs arbitrary: a) (simp_all add: point_distance_nonneg segment_distance_nonneg)

lemma planar_distance_nonneg: "0 \<le> planar_distance inside g p"
  by (cases g) (simp_all add: line_distance_nonneg)

lemma sqrt_9: "sqrt 9 = (3 :: real)"
  using real_sqrt_abs [of 3] by simp

lemma sqrt_25: "sqrt 25 = (5 :: real)"
  using real_sqrt_abs [of 5] by simp

lemma categorize_risk_label:
  "categorize_risk x \<in>
     {''High Risk (<100m)'', ''Medium Risk (101-500m)'', ''Low Risk (>500m)''}"
  by (simp add: categorize_risk_def)

lemma wf_column_length:
  "wf_gdf f \<Longrightarrow> map_of (cols f) k = Some v \<Longrightarrow> length v = length (geometry f)"
proof -
  assume wf: "wf_gdf f" and "map_of (cols f) k = Some v"
  then have "(k, v) \<in> set (cols f)"
    by (simp add: map_of_SomeD)
  with wf show ?thesis
    by (fastforce simp: wf_gdf_def list_all_iff)
qed

lemma map_over_indices: "map (\<lambda>i. f (xs ! i)) [0..<length xs] = map f xs"
  by (rule nth_equalityI) simp_all

text \<open>
  The report of a run whose facility frame has the four columns the report asks for.
\<close>

lemma main_steps_eq:
  assumes "map_of (cols fac) ''FACILITY_NAME'' = Some names"
    and "map_of (cols fac) ''COUNTY'' = Some counties"
    and "map_of (cols fac) ''LATITUDE'' = Some lats"
    and "map_of (cols fac) ''LONGITUDE'' = Some lons"
  shows "main_steps distance reproject fac water =
     Inr \<lparr>header = [''FACILITY_NAME'', ''COUNTY'', ''LATITUDE'', ''LONGITUDE'',
                     ''Distance_to_Water_m'', ''Risk_Category''],
          rows = map (\<lambda>i. [names ! i, counties ! i, lats ! i, lons ! i,
                            Num (min_dist distance water (geometry fac ! i)),
                            Str (categorize_risk (min_dist distance water (geometry fac ! i)))])
                   [0..<length (geometry fac)]\<rparr>"
  using assms
  by (simp add: main_steps_def calculate_eq generate_reports_def to_crs_def to_csv_def
      map_of_assign)

section \<open>Properties of the risk categorisation\<close>

text \<open>
  C2. For every non-negative distance the classifier returns one of the three band labels,
  and exactly the one of its range: the high band if and only if the distance is at most
  100, the medium band if and only if it is above 100 and at most 500, the low band if and
  only if it is above 500. The three labels are different strings, so the bands do not
  overlap; 100 is high and 500 is medium.
\<close>

theorem categorize_risk_bands:
  assumes "0 \<le> d"
  shows "categorize_risk (Fin d) \<in>
           {''High Risk (<100m)'', ''Medium Risk (101-500m)'', ''Low Risk (>500m)''}
       \<and> (categorize_risk (Fin d) = ''High Risk (<100m)'' \<longleftrightarrow> d \<le> 100)
       \<and> (categorize_risk (Fin d) = ''Medium Risk (101-500m)'' \<longleftrightarrow> 100 < d \<and> d \<le> 500)
       \<and> (categorize_risk (Fin d) = ''Low Risk (>500m)'' \<longleftrightarrow> 500 < d)"
  by (simp add: categorize_risk_def HIGH_RISK_THRESHOLD_def MEDIUM_RISK_THRESHOLD_def)

theorem categorize_risk_bands_witness:
  "(0::real) \<le> 100 \<and> (0::real) \<le> 500
   \<and> categorize_risk (Fin 100) = ''High Risk (<100m)''
   \<and> categorize_risk (Fin 100) \<noteq> ''Medium Risk (101-500m)''
   \<and> categorize_risk (Fin 100) \<noteq> ''Low Risk (>500m)''
   \<and> categorize_risk (Fin 500) = ''Medium Risk (101-500m)''
   \<and> categorize_risk (Fin 500) \<noteq> ''High Risk (<100m)''
   \<and> categorize_risk (Fin 500) \<noteq> ''Low Risk (>500m)''"
  using categorize_risk_bands [of 100] categorize_risk_bands [of 500] by simp

text \<open>
  C4, as amended. The classifier has no failure: a negative value is at most 100, and
  the classifier returns the high band for it.
\<close>

theorem categorize_risk_negative:
  assumes "d < 0"
  shows "categorize_risk (Fin d) = ''High Risk (<100m)''"
  using assms by (simp add: categorize_risk_def HIGH_RISK_THRESHOLD_def)

theorem categorize_risk_negative_witness:
  "(- 1 :: real) < 0 \<and> categorize_risk (Fin (- 1)) = ''High Risk (<100m)''"
  using categorize_risk_negative [of "- 1"] by simp

text \<open>C4 as stated fails at the distance -5: the classifier answers with a band.\<close>

theorem categorize_risk_negative_counterexample:
  "categorize_risk (Fin (- 5)) = ''High Risk (<100m)''"
  by (simp add: categorize_risk_def HIGH_RISK_THRESHOLD_def)

section \<open>Properties of the distance calculation\<close>

text \<open>
  C1. For every facility frame and every water collection with at least one feature, the
  call returns, and the distance it stores for each facility is the brute-force minimum,
  over all features of the collection, of the distance between the feature and the
  facility's point. The two are equal, so they agree within every tolerance.
\<close>

theorem reported_distance_is_brute_force_minimum:
  assumes "water \<noteq> []"
  shows "\<exists>out. calculate_distance_and_categorize_risk distance fac water = Inr out
          \<and> get_column ''Distance_to_Water_m'' out =
              Inr (map (\<lambda>p. Num (Fin (brute_force_minimum distance water p))) (geometry fac))"
  using assms distance_column [of distance fac water]
  by (simp add: calculate_eq min_dist_brute_force)

theorem reported_distance_is_brute_force_minimum_witness:
  "[1 / 8, 3] \<noteq> ([] :: real list)
   \<and> (\<exists>out. calculate_distance_and_categorize_risk (\<lambda>g p. \<bar>g - p\<bar>)
               \<lparr>cols = [(''FACILITY_NAME'', [Str ''A'', Str ''B''])], geometry = [0, 2 :: real]\<rparr>
               [1 / 8, 3] = Inr out
          \<and> get_column ''Distance_to_Water_m'' out = Inr [Num (Fin (1 / 8)), Num (Fin 1)])"
  using reported_distance_is_brute_force_minimum [of "[1 / 8, 3 :: real]" "\<lambda>g p. \<bar>g - p\<bar>"
      "\<lparr>cols = [(''FACILITY_NAME'', [Str ''A'', Str ''B''])], geometry = [0, 2 :: real]\<rparr>"]
  by (simp add: brute_force_minimum_def)

text \<open>
  C7. When the water collection has at least one feature, the call returns and every cell
  of the distance column holds a number that is at least 0, for the planar distance of
  the specification and whatever the facilities and the features are: no negative value
  and no \<open>NaN\<close> reaches the classifier.
\<close>

theorem distances_nonnegative:
  assumes "water \<noteq> []"
  shows "\<exists>out ds.
           calculate_distance_and_categorize_risk (planar_distance inside) fac water = Inr out
         \<and> get_column ''Distance_to_Water_m'' out = Inr ds
         \<and> length ds = length (geometry fac)
         \<and> list_all nonnegative_cell ds"
proof -
  have "list_all nonnegative_cell
      (map (\<lambda>p. Num (min_dist (planar_distance inside) water p)) (geometry fac))"
    using assms by (intro nonnegative_distance_column) (simp_all add: planar_distance_nonneg)
  then show ?thesis
    using distance_column [of "planar_distance inside" fac water] by (simp add: calculate_eq)
qed

theorem distances_nonnegative_witness:
  "[LineString (3, 0) [(3, 4)]] \<noteq> []
   \<and> (\<exists>out. calculate_distance_and_categorize_risk (planar_distance (\<lambda>ring p. False))
               \<lparr>cols = [(''FACILITY_NAME'', [Str ''A''])], geometry = [(0, 0)]\<rparr>
               [LineString (3, 0) [(3, 4)]] = Inr out
          \<and> get_column ''Distance_to_Water_m'' out = Inr [Num (Fin 3)]
          \<and> list_all nonnegative_cell [Num (Fin 3)])"
proof -
  have h: "[LineString (3, 0) [(3, 4)]] \<noteq> []"
    by simp
  have d: "min_dist (planar_distance (\<lambda>ring p. False)) [LineString (3, 0) [(3, 4)]] (0, 0) =
      Fin 3"
    by (simp add: min_dist_def segment_distance_def point_distance_def sqrt_9 sqrt_25)
  show ?thesis
    using distances_nonnegative [OF h, of "\<lambda>ring p. False"
        "\<lparr>cols = [(''FACILITY_NAME'', [Str ''A''])], geometry = [(0, 0)]\<rparr>"]
      distance_column [of "planar_distance (\<lambda>ring p. False)"
        "\<lparr>cols = [(''FACILITY_NAME'', [Str ''A''])], geometry = [(0, 0)]\<rparr>"
        "[LineString (3, 0) [(3, 4)]]"]
    by (auto simp: d)
qed

text \<open>
  C3, as amended. With an empty water collection the call does not fail: it returns the
  frame with the facilities as they were and in their order, and with one distance for
  each facility, every one of them \<open>NaN\<close>, the minimum of an empty series. The code has no
  failure for this case and no marker for a facility it could not classify.
\<close>

theorem empty_water_collection:
  "\<exists>out. calculate_distance_and_categorize_risk distance fac [] = Inr out
     \<and> geometry out = geometry fac
     \<and> get_column ''Distance_to_Water_m'' out = Inr (map (\<lambda>p. Num NaN) (geometry fac))"
  using distance_column [of distance fac "[]"]
  by (simp add: calculate_eq min_dist_def)

theorem empty_water_collection_witness:
  "\<exists>out. calculate_distance_and_categorize_risk (\<lambda>g p. \<bar>g - p\<bar>)
       \<lparr>cols = [(''FACILITY_NAME'', [Str ''A'', Str ''B''])], geometry = [0, 2 :: real]\<rparr>
       ([] :: real list) = Inr out
     \<and> geometry out = [0, 2]
     \<and> get_column ''Distance_to_Water_m'' out = Inr [Num NaN, Num NaN]"
  using empty_water_collection [of "\<lambda>g p. \<bar>g - p\<bar>"
      "\<lparr>cols = [(''FACILITY_NAME'', [Str ''A'', Str ''B''])], geometry = [0, 2 :: real]\<rparr>"]
  by simp

text \<open>
  C3 as stated fails for one facility and no water feature: the call returns, and the
  facility has the low band.
\<close>

theorem empty_water_collection_counterexample:
  "calculate_distance_and_categorize_risk (\<lambda>g p. \<bar>g - p\<bar>)
     \<lparr>cols = [(''FACILITY_NAME'', [Str ''A''])], geometry = [0 :: real]\<rparr> ([] :: real list) =
   Inr \<lparr>cols = [(''FACILITY_NAME'', [Str ''A'']), (''Distance_to_Water_m'', [Num NaN]),
               (''Risk_Category'', [Str ''Low Risk (>500m)''])],
        geometry = [0]\<rparr>"
  by (simp add: calculate_eq min_dist_def categorize_risk_def)

text \<open>
  C8. The call returns a frame with the same geometry column, and with every column of
  the input other than the two derived ones as it was and in the same order: nothing is
  deleted and nothing is reordered. On a frame that does not yet have the two derived
  columns, the result is the input's columns followed by the distance column and the
  category column.
\<close>

theorem derived_columns_appended:
  "\<exists>out. calculate_distance_and_categorize_risk distance fac water = Inr out
     \<and> geometry out = geometry fac
     \<and> filter (\<lambda>c. fst c \<notin> {''Distance_to_Water_m'', ''Risk_Category''}) (cols out) =
         filter (\<lambda>c. fst c \<notin> {''Distance_to_Water_m'', ''Risk_Category''}) (cols fac)
     \<and> (''Distance_to_Water_m'' \<notin> fst ` set (cols fac)
          \<and> ''Risk_Category'' \<notin> fst ` set (cols fac) \<longrightarrow>
        cols out = cols fac @
            [(''Distance_to_Water_m'',
                map (\<lambda>p. Num (min_dist distance water p)) (geometry fac)),
             (''Risk_Category'',
                map (\<lambda>p. Str (categorize_risk (min_dist distance water p))) (geometry fac))])"
proof -
  let ?keep = "\<lambda>k. k \<notin> {''Distance_to_Water_m'', ''Risk_Category''}"
  have kept: "filter (\<lambda>c. ?keep (fst c))
        (assign ''Risk_Category'' r (assign ''Distance_to_Water_m'' d (cols fac))) =
      filter (\<lambda>c. ?keep (fst c)) (cols fac)" for r d
    using filter_assign [of ?keep "''Risk_Category''" r
        "assign ''Distance_to_Water_m'' d (cols fac)"]
      filter_assign [of ?keep "''Distance_to_Water_m''" d "cols fac"]
    by simp
  show ?thesis
    unfolding calculate_eq using kept by (simp add: assign_fresh)
qed

theorem derived_columns_appended_witness:
  "\<exists>out. calculate_distance_and_categorize_risk (\<lambda>g p. \<bar>g - p\<bar>)
       \<lparr>cols = [(''FACILITY_NAME'', [Str ''A'']), (''OWNER'', [Str ''Z''])],
        geometry = [0 :: real]\<rparr> [1 / 8, 3 :: real] = Inr out
     \<and> geometry out = [0]
     \<and> filter (\<lambda>c. fst c \<notin> {''Distance_to_Water_m'', ''Risk_Category''}) (cols out) =
         [(''FACILITY_NAME'', [Str ''A'']), (''OWNER'', [Str ''Z''])]
     \<and> cols out = [(''FACILITY_NAME'', [Str ''A'']), (''OWNER'', [Str ''Z'']),
                 (''Distance_to_Water_m'', [Num (Fin (1 / 8))]),
                 (''Risk_Category'', [Str ''High Risk (<100m)''])]"
  using derived_columns_appended [of "\<lambda>g p. \<bar>g - p\<bar>"
      "\<lparr>cols = [(''FACILITY_NAME'', [Str ''A'']), (''OWNER'', [Str ''Z''])],
        geometry = [0 :: real]\<rparr>" "[1 / 8, 3 :: real]"]
  by (simp add: min_dist_def categorize_risk_def HIGH_RISK_THRESHOLD_def)

section \<open>Properties of the report\<close>

text \<open>
  C5. For a facility frame that has the four columns the report reads, each with one cell
  for each facility, and for every way of computing distances, the run returns a report
  with exactly one row for each facility, in the order of the input: read column by
  column, the rows give back the input's names, counties, latitudes and longitudes as
  they were, and the distance and the category in a row are those of the facility at the
  same place of the input.
\<close>

theorem report_rows_follow_facilities:
  assumes "wf_gdf fac"
    and "map_of (cols fac) ''FACILITY_NAME'' = Some names"
    and "map_of (cols fac) ''COUNTY'' = Some counties"
    and "map_of (cols fac) ''LATITUDE'' = Some lats"
    and "map_of (cols fac) ''LONGITUDE'' = Some lons"
  shows "\<exists>rep. main_steps distance reproject fac water = Inr rep
          \<and> length (rows rep) = length (geometry fac)
          \<and> map (\<lambda>r. r ! 0) (rows rep) = names
          \<and> map (\<lambda>r. r ! 1) (rows rep) = counties
          \<and> map (\<lambda>r. r ! 2) (rows rep) = lats
          \<and> map (\<lambda>r. r ! 3) (rows rep) = lons
          \<and> map (\<lambda>r. r ! 4) (rows rep) =
              map (\<lambda>p. Num (min_dist distance water p)) (geometry fac)
          \<and> map (\<lambda>r. r ! 5) (rows rep) =
              map (\<lambda>p. Str (categorize_risk (min_dist distance water p))) (geometry fac)"
proof -
  have len: "length names = length (geometry fac)" "length counties = length (geometry fac)"
    "length lats = length (geometry fac)" "length lons = length (geometry fac)"
    using assms by (simp_all add: wf_column_length)
  have cells: "map (\<lambda>i. v ! i) [0..<length (geometry fac)] = v"
    if "length v = length (geometry fac)" for v :: "cell list"
    using that map_nth [of v] by simp
  show ?thesis
    unfolding main_steps_eq [OF assms(2-5)]
    by (simp add: comp_def cells len
        map_over_indices [of "\<lambda>p. Num (min_dist distance water p)" "geometry fac"]
        map_over_indices [of "\<lambda>p. Str (categorize_risk (min_dist distance water p))"
          "geometry fac"])
qed

theorem report_rows_follow_facilities_witness:
  "wf_gdf \<lparr>cols = [(''FACILITY_NAME'', [Str ''A'', Str ''B'']), (''COUNTY'', [Str ''X'', Str ''Y'']),
                   (''LATITUDE'', [Num (Fin 37), Num (Fin 38)]),
                   (''LONGITUDE'', [Num (Fin (- 122)), Num (Fin (- 121))])],
           geometry = [0, 2 :: real]\<rparr>
   \<and> (\<exists>rep. main_steps (\<lambda>g p. \<bar>g - p\<bar>) (\<lambda>p. p)
         \<lparr>cols = [(''FACILITY_NAME'', [Str ''A'', Str ''B'']), (''COUNTY'', [Str ''X'', Str ''Y'']),
                   (''LATITUDE'', [Num (Fin 37), Num (Fin 38)]),
                   (''LONGITUDE'', [Num (Fin (- 122)), Num (Fin (- 121))])],
           geometry = [0, 2 :: real]\<rparr> [1 / 8, 3 :: real] = Inr rep
       \<and> length (rows rep) = 2
       \<and> map (\<lambda>r. r ! 0) (rows rep) = [Str ''A'', Str ''B'']
       \<and> map (\<lambda>r. r ! 1) (rows rep) = [Str ''X'', Str ''Y'']
       \<and> map (\<lambda>r. r ! 2) (rows rep) = [Num (Fin 37), Num (Fin 38)]
       \<and> map (\<lambda>r. r ! 3) (rows rep) = [Num (Fin (- 122)), Num (Fin (- 121))]
       \<and> map (\<lambda>r. r ! 4) (rows rep) = [Num (Fin (1 / 8)), Num (Fin 1)]
       \<and> map (\<lambda>r. r ! 5) (rows rep) = [Str ''High Risk (<100m)'', Str ''High Risk (<100m)''])"
proof -
  let ?fac = "\<lparr>cols = [(''FACILITY_NAME'', [Str ''A'', Str ''B'']),
                       (''COUNTY'', [Str ''X'', Str ''Y'']),
                       (''LATITUDE'', [Num (Fin 37), Num (Fin 38)]),
                       (''LONGITUDE'', [Num (Fin (- 122)), Num (Fin (- 121))])],
               geometry = [0, 2 :: real]\<rparr>"
  have h1: "wf_gdf ?fac"
    by (simp add: wf_gdf_def)
  have h2: "map_of (cols ?fac) ''FACILITY_NAME'' = Some [Str ''A'', Str ''B'']"
    by simp
  have h3: "map_of (cols ?fac) ''COUNTY'' = Some [Str ''X'', Str ''Y'']"
    by simp
  have h4: "map_of (cols ?fac) ''LATITUDE'' = Some [Num (Fin 37), Num (Fin 38)]"
    by simp
  have h5: "map_of (cols ?fac) ''LONGITUDE'' = Some [Num (Fin (- 122)), Num (Fin (- 121))]"
    by simp
  show ?thesis
    using h1 report_rows_follow_facilities [OF h1 h2 h3 h4 h5, of "\<lambda>g p. \<bar>g - p\<bar>" "\<lambda>p. p" "[1 / 8, 3 :: real]"]
    by (simp add: min_dist_def categorize_risk_def HIGH_RISK_THRESHOLD_def numeral_2_eq_2)
qed

text \<open>
  C6, as amended. The report has exactly the columns FACILITY_NAME, COUNTY, LATITUDE,
  LONGITUDE, Distance_to_Water_m, Risk_Category, in that order, and one row for each
  facility in the order of the input; a row holds the facility's four cells as they were,
  the distance as it was computed, with nothing rounded, and a category that is one of
  the three band labels.
\<close>

theorem report_table:
  assumes "wf_gdf fac"
    and "map_of (cols fac) ''FACILITY_NAME'' = Some names"
    and "map_of (cols fac) ''COUNTY'' = Some counties"
    and "map_of (cols fac) ''LATITUDE'' = Some lats"
    and "map_of (cols fac) ''LONGITUDE'' = Some lons"
  shows "main_steps distance reproject fac water =
     Inr \<lparr>header = [''FACILITY_NAME'', ''COUNTY'', ''LATITUDE'', ''LONGITUDE'',
                     ''Distance_to_Water_m'', ''Risk_Category''],
          rows = map (\<lambda>(name, county, lat, lon, p).
                        [name, county, lat, lon, Num (min_dist distance water p),
                         Str (categorize_risk (min_dist distance water p))])
                   (zip names (zip counties (zip lats (zip lons (geometry fac)))))\<rparr>
     \<and> length (zip names (zip counties (zip lats (zip lons (geometry fac))))) =
         length (geometry fac)
     \<and> list_all (\<lambda>p. categorize_risk (min_dist distance water p) \<in>
           {''High Risk (<100m)'', ''Medium Risk (101-500m)'', ''Low Risk (>500m)''})
         (geometry fac)"
proof -
  have len: "length names = length (geometry fac)" "length counties = length (geometry fac)"
    "length lats = length (geometry fac)" "length lons = length (geometry fac)"
    using assms by (simp_all add: wf_column_length)
  have "map (\<lambda>i. [names ! i, counties ! i, lats ! i, lons ! i,
                  Num (min_dist distance water (geometry fac ! i)),
                  Str (categorize_risk (min_dist distance water (geometry fac ! i)))])
          [0..<length (geometry fac)] =
        map (\<lambda>(name, county, lat, lon, p).
                [name, county, lat, lon, Num (min_dist distance water p),
                 Str (categorize_risk (min_dist distance water p))])
          (zip names (zip counties (zip lats (zip lons (geometry fac)))))"
    by (rule nth_equalityI) (simp_all add: len)
  then have table: "main_steps distance reproject fac water =
     Inr \<lparr>header = [''FACILITY_NAME'', ''COUNTY'', ''LATITUDE'', ''LONGITUDE'',
                     ''Distance_to_Water_m'', ''Risk_Category''],
          rows = map (\<lambda>(name, county, lat, lon, p).
                        [name, county, lat, lon, Num (min_dist distance water p),
                         Str (categorize_risk (min_dist distance water p))])
                   (zip names (zip counties (zip lats (zip lons (geometry fac)))))\<rparr>"
    unfolding main_steps_eq [OF assms(2-5)] by simp
  have count: "length (zip names (zip counties (zip lats (zip lons (geometry fac))))) =
      length (geometry fac)"
    by (simp add: len)
  have labels: "list_all (\<lambda>p. categorize_risk (min_dist distance water p) \<in>
           {''High Risk (<100m)'', ''Medium Risk (101-500m)'', ''Low Risk (>500m)''})
         (geometry fac)"
    unfolding list_all_iff using categorize_risk_label by blast
  from table count labels show ?thesis
    by (intro conjI)
qed

theorem report_table_witness:
  "wf_gdf \<lparr>cols = [(''FACILITY_NAME'', [Str ''A'', Str ''B'']), (''COUNTY'', [Str ''X'', Str ''Y'']),
                   (''LATITUDE'', [Num (Fin 37), Num (Fin 38)]),
                   (''LONGITUDE'', [Num (Fin (- 122)), Num (Fin (- 121))])],
           geometry = [0, 700 :: real]\<rparr>
   \<and> main_steps (\<lambda>g p. \<bar>g - p\<bar>) (\<lambda>p. p)
         \<lparr>cols = [(''FACILITY_NAME'', [Str ''A'', Str ''B'']), (''COUNTY'', [Str ''X'', Str ''Y'']),
                   (''LATITUDE'', [Num (Fin 37), Num (Fin 38)]),
                   (''LONGITUDE'', [Num (Fin (- 122)), Num (Fin (- 121))])],
           geometry = [0, 700 :: real]\<rparr> [1 / 8, 3 :: real] =
       Inr \<lparr>header = [''FACILITY_NAME'', ''COUNTY'', ''LATITUDE'', ''LONGITUDE'',
                       ''Distance_to_Water_m'', ''Risk_Category''],
            rows = [[Str ''A'', Str ''X'', Num (Fin 37), Num (Fin (- 122)), Num (Fin (1 / 8)),
                     Str ''High Risk (<100m)''],
                    [Str ''B'', Str ''Y'', Num (Fin 38), Num (Fin (- 121)), Num (Fin 697),
                     Str ''Low Risk (>500m)'']]\<rparr>"
proof -
  let ?fac = "\<lparr>cols = [(''FACILITY_NAME'', [Str ''A'', Str ''B'']),
                       (''COUNTY'', [Str ''X'', Str ''Y'']),
                       (''LATITUDE'', [Num (Fin 37), Num (Fin 38)]),
                       (''LONGITUDE'', [Num (Fin (- 122)), Num (Fin (- 121))])],
               geometry = [0, 700 :: real]\<rparr>"
  have h1: "wf_gdf ?fac"
    by (simp add: wf_gdf_def)
  have h2: "map_of (cols ?fac) ''FACILITY_NAME'' = Some [Str ''A'', Str ''B'']"
    by simp
  have h3: "map_of (cols ?fac) ''COUNTY'' = Some [Str ''X'', Str ''Y'']"
    by simp
  have h4: "map_of (cols ?fac) ''LATITUDE'' = Some [Num (Fin 37), Num (Fin 38)]"
    by simp
  have h5: "map_of (cols ?fac) ''LONGITUDE'' = Some [Num (Fin (- 122)), Num (Fin (- 121))]"
    by simp
  show ?thesis
    using h1 report_table [OF h1 h2 h3 h4 h5, of "\<lambda>g p. \<bar>g - p\<bar>" "\<lambda>p. p" "[1 / 8, 3 :: real]"]
    by (simp add: min_dist_def categorize_risk_def HIGH_RISK_THRESHOLD_def
        MEDIUM_RISK_THRESHOLD_def)
qed

text \<open>
  C6 as stated fails for a facility at 0.125 m from the nearest feature: the distance cell
  of its row holds 0.125, which two decimals cannot show.
\<close>

theorem report_distance_counterexample:
  "main_steps (\<lambda>g p. \<bar>g - p\<bar>) (\<lambda>p. p)
     \<lparr>cols = [(''FACILITY_NAME'', [Str ''A'']), (''COUNTY'', [Str ''X'']),
               (''LATITUDE'', [Num (Fin 37)]), (''LONGITUDE'', [Num (Fin (- 122))])],
      geometry = [0 :: real]\<rparr> [1 / 8, 3 :: real] =
   Inr \<lparr>header = [''FACILITY_NAME'', ''COUNTY'', ''LATITUDE'', ''LONGITUDE'',
                   ''Distance_to_Water_m'', ''Risk_Category''],
        rows = [[Str ''A'', Str ''X'', Num (Fin 37), Num (Fin (- 122)), Num (Fin (1 / 8)),
                 Str ''High Risk (<100m)'']]\<rparr>
   \<and> \<not> two_decimals (1 / 8)"
  by (simp add: main_steps_def calculate_eq generate_reports_def to_crs_def to_csv_def
      min_dist_def categorize_risk_def HIGH_RISK_THRESHOLD_def two_decimals_def)

end
